theory Spec2Isabelle
  imports Complex_Main "HOL-Library.Multiset"
begin

section \<open>Data model\<close>

text \<open>
  The entities of \<^verbatim>\<open>backend/src/entities\<close>. A JavaScript \<^verbatim>\<open>Date\<close> that holds a
  valid instant is its \<^verbatim>\<open>getTime()\<close> value, an integer number of milliseconds (at most
  8.64e15 on either side of the epoch); the
  columns of the tables are \<^verbatim>\<open>NOT NULL\<close> timestamps, so the stored instants are
  always valid. Only the fields the services read or write are kept (names, e-mail,
  password hash and the version counter are left out).
\<close>

datatype UserType = PAINTER | CUSTOMER

record User =
  user_id :: string
  userType :: UserType
  user_createdAt :: int

record AvailabilitySlot =
  slot_id :: string
  slot_painterId :: string
  slot_startTime :: int
  slot_endTime :: int
  isBooked :: bool

datatype BookingStatus = PENDING | CONFIRMED | CANCELLED

record Booking =
  booking_id :: string
  customerId :: string
  painterId :: string
  availabilitySlotId :: "string option"
  startTime :: int
  endTime :: int
  status :: BookingStatus
  createdAt :: int
  updatedAt :: int

text \<open>The three tables the repositories read and write, rows in insertion order.\<close>

record Database =
  users :: "User list"
  slots :: "AvailabilitySlot list"
  bookings :: "Booking list"

text \<open>
  A slot loaded together with its \<^verbatim>\<open>painter\<close> relation
  (\<^verbatim>\<open>innerJoinAndSelect('slot.painter', 'painter')\<close>).
\<close>

type_synonym SlotWithPainter = "AvailabilitySlot \<times> User"

text \<open>
  Every exception the services can leave with. The source throws Nest exceptions that
  differ by class and message; the constructors name them after the taxonomy of the
  specification:
  \<^item> \<open>NotFound\<close>: every \<^verbatim>\<open>NotFoundException\<close>;
  \<^item> \<open>InvalidInput\<close>: \<^verbatim>\<open>BadRequestException('Invalid date format. ...')\<close>;
  \<^item> \<open>InvalidRange\<close>: \<^verbatim>\<open>BadRequestException('End time must be after start time')\<close>
    and \<^verbatim>\<open>BadRequestException('Requested duration exceeds available slot time')\<close>;
  \<^item> \<open>PastSchedule\<close>: \<^verbatim>\<open>BadRequestException('Cannot book in the past')\<close> and
    \<^verbatim>\<open>BadRequestException('Cannot create availability in the past')\<close>;
  \<^item> \<open>Conflict\<close>: every \<^verbatim>\<open>ConflictException\<close>;
  \<^item> \<open>InvalidTransition\<close>: \<^verbatim>\<open>BadRequestException('Cannot update cancelled booking')\<close>
    and \<^verbatim>\<open>BadRequestException('Booking already has this status')\<close>;
  \<^item> \<open>NoCandidates\<close>: \<^verbatim>\<open>Error('No available painters')\<close>;
  \<^item> \<open>EmptyCriteria\<close>: the rejection of TypeORM's \<^verbatim>\<open>Repository.update\<close> when its
    criteria argument is \<^verbatim>\<open>undefined\<close>, \<^verbatim>\<open>null\<close> or the empty string
    (\<^verbatim>\<open>Empty criteria(s) are not allowed for the update method.\<close>);
  \<^item> \<open>QueryFailed\<close>: the database refusing a statement because of a parameter it cannot
    read: an invalid \<^verbatim>\<open>Date\<close>, an instant before its earliest timestamp, or a number
    of seconds too large for an interval (none of the service's own exceptions).
\<close>

datatype error =
    NotFound | InvalidInput | InvalidRange | PastSchedule | Conflict
  | InvalidTransition | NoCandidates | EmptyCriteria | QueryFailed

section \<open>Slot store (\<^verbatim>\<open>availability.service.ts\<close>)\<close>

text \<open>
  \<^verbatim>\<open>markSlotAsBooked(slot: AvailabilitySlot)\<close> and \<^verbatim>\<open>markSlotAsAvailable\<close> are declared on
  a slot entity; the three calls in \<^verbatim>\<open>booking.service.ts\<close>, all of
  \<^verbatim>\<open>markSlotAsBooked\<close>, pass the slot's id, a string. Types are erased when the code
  runs, so the argument is one of three kinds of JavaScript value, and the body reads
  \<^verbatim>\<open>!slot\<close>, \<^verbatim>\<open>slot.isBooked\<close> and \<^verbatim>\<open>slot.id\<close> off whichever it was given: both
  properties are \<^verbatim>\<open>undefined\<close> on a string.
\<close>

datatype slot_arg =
    SlotEntity AvailabilitySlot
  | SlotIdString string
  | NoSlot

fun js_not :: "slot_arg \<Rightarrow> bool" where
  "js_not (SlotEntity s) = False"
| "js_not (SlotIdString k) = (k = [])"
| "js_not NoSlot = True"

fun arg_isBooked :: "slot_arg \<Rightarrow> bool" where
  "arg_isBooked (SlotEntity s) = isBooked s"
| "arg_isBooked (SlotIdString k) = False"
| "arg_isBooked NoSlot = False"

fun arg_id :: "slot_arg \<Rightarrow> string option" where
  "arg_id (SlotEntity s) = Some (slot_id s)"
| "arg_id (SlotIdString k) = None"
| "arg_id NoSlot = None"

text \<open>
  \<^verbatim>\<open>availabilityRepository.update(criteria, { isBooked: flag })\<close>: every row whose id is
  the criteria gets the flag (none, when no row has that id); an empty criteria is
  rejected.
\<close>

definition repository_update ::
  "string option \<Rightarrow> bool \<Rightarrow> AvailabilitySlot list \<Rightarrow> error + AvailabilitySlot list" where
  "repository_update criteria flag rows =
     (case criteria of
        None \<Rightarrow> Inl EmptyCriteria
      | Some k \<Rightarrow>
          if k = [] then Inl EmptyCriteria
          else Inr (map (\<lambda>s. if slot_id s = k then s\<lparr>isBooked := flag\<rparr> else s) rows))"

definition markSlotAsBooked :: "slot_arg \<Rightarrow> Database \<Rightarrow> error + Database" where
  "markSlotAsBooked slot db =
     (if js_not slot then Inl NotFound
      else if arg_isBooked slot then Inl Conflict
      else case repository_update (arg_id slot) True (slots db) of
             Inl e \<Rightarrow> Inl e
           | Inr rows \<Rightarrow> Inr (db\<lparr>slots := rows\<rparr>))"

definition markSlotAsAvailable :: "slot_arg \<Rightarrow> Database \<Rightarrow> error + Database" where
  "markSlotAsAvailable slot db =
     (if js_not slot then Inl NotFound
      else if \<not> arg_isBooked slot then Inl Conflict
      else case repository_update (arg_id slot) False (slots db) of
             Inl e \<Rightarrow> Inl e
           | Inr rows \<Rightarrow> Inr (db\<lparr>slots := rows\<rparr>))"

text \<open>\<^verbatim>\<open>findSlotById\<close>: the first row with that id, or \<^verbatim>\<open>null\<close>.\<close>

definition findSlotById :: "string \<Rightarrow> Database \<Rightarrow> AvailabilitySlot option" where
  "findSlotById slotId db = find (\<lambda>s. slot_id s = slotId) (slots db)"

text \<open>What a caller holds after \<^verbatim>\<open>findSlotById\<close>: the entity, or \<^verbatim>\<open>null\<close>.\<close>

fun loaded :: "AvailabilitySlot option \<Rightarrow> slot_arg" where
  "loaded None = NoSlot"
| "loaded (Some s) = SlotEntity s"

subsection \<open>Dates and the time-range check\<close>

text \<open>
  A \<^verbatim>\<open>Date\<close> built from a request string: \<open>None\<close> is the invalid date, whose time
  value is \<^verbatim>\<open>NaN\<close>. The relational operators compare time values, and every comparison
  with \<^verbatim>\<open>NaN\<close> is false.
\<close>

type_synonym Date = "int option"

fun isNaN_getTime :: "Date \<Rightarrow> bool" where
  "isNaN_getTime None = True"
| "isNaN_getTime (Some t) = False"

fun date_ge :: "Date \<Rightarrow> Date \<Rightarrow> bool" where
  "date_ge (Some a) (Some b) = (a \<ge> b)"
| "date_ge a b = False"

fun date_lt :: "Date \<Rightarrow> Date \<Rightarrow> bool" where
  "date_lt (Some a) (Some b) = (a < b)"
| "date_lt a b = False"

fun date_gt :: "Date \<Rightarrow> Date \<Rightarrow> bool" where
  "date_gt (Some a) (Some b) = (a > b)"
| "date_gt a b = False"

text \<open>
  \<^verbatim>\<open>new Date(t)\<close> for a number of milliseconds: beyond 8.64e15 on either side of the epoch
  the result is the invalid date.
\<close>

definition newDate :: "int \<Rightarrow> Date" where
  "newDate t = (if \<bar>t\<bar> \<le> 8640000000000000 then Some t else None)"

text \<open>
  What the database (PostgreSQL 15, by the README) accepts as a parameter. A timestamp
  must be a valid date and not lie before the earliest timestamp of the database,
  midnight of 24 November 4714 BC, which is \<open>-210866803200000\<close> ms. A plain number
  that is compared with an interval is read as that many seconds, and must fit the 64
  bits in which an interval counts microseconds.
\<close>

fun acceptsTimestamp :: "Date \<Rightarrow> bool" where
  "acceptsTimestamp None = False"
| "acceptsTimestamp (Some t) = (- 210866803200000 \<le> t \<and> t \<le> 8640000000000000)"

definition acceptsInterval :: "int \<Rightarrow> bool" where
  "acceptsInterval seconds = (\<bar>seconds\<bar> \<le> 9223372036854)"

text \<open>\<^verbatim>\<open>timeRangeValidation\<close>; \<open>now\<close> is the value of \<^verbatim>\<open>new Date()\<close> at the call.\<close>

definition timeRangeValidation :: "Date \<Rightarrow> Date \<Rightarrow> int \<Rightarrow> error + unit" where
  "timeRangeValidation startT endT now =
     (if isNaN_getTime startT \<or> isNaN_getTime endT then Inl InvalidInput
      else if date_ge startT endT then Inl InvalidRange
      else if date_lt startT (Some now) then Inl PastSchedule
      else Inr ())"

text \<open>
  \<^verbatim>\<open>findAvailablePaintersForTimeSlot\<close>, for two valid dates: the free slots that cover
  the interval, each joined with its painter (a slot without one is dropped by the inner
  join).
\<close>

definition withPainter :: "Database \<Rightarrow> AvailabilitySlot \<Rightarrow> SlotWithPainter option" where
  "withPainter db slot =
     map_option (Pair slot) (find (\<lambda>u. user_id u = slot_painterId slot) (users db))"

definition findAvailablePaintersForTimeSlot ::
  "int \<Rightarrow> int \<Rightarrow> Database \<Rightarrow> SlotWithPainter list" where
  "findAvailablePaintersForTimeSlot startT endT db =
     List.map_filter (withPainter db)
       (filter (\<lambda>slot. isBooked slot = False \<and> slot_startTime slot \<le> startT
                       \<and> slot_endTime slot \<ge> endT) (slots db))"

section \<open>Assignment service (\<^verbatim>\<open>painter-assignment.service.ts\<close>)\<close>

text \<open>
  \<^verbatim>\<open>Array.prototype.sort\<close> with a comparator is a stable sort; \<open>le a b\<close> stands for
  \<^verbatim>\<open>compare(a, b) <= 0\<close>. Insertion from the right end keeps elements that compare
  equal in their original order.
\<close>

fun insert_sorted :: "('a \<Rightarrow> 'a \<Rightarrow> bool) \<Rightarrow> 'a \<Rightarrow> 'a list \<Rightarrow> 'a list" where
  "insert_sorted le x [] = [x]"
| "insert_sorted le x (y # ys) =
     (if le x y then x # y # ys else y # insert_sorted le x ys)"

definition array_sort :: "('a \<Rightarrow> 'a \<Rightarrow> bool) \<Rightarrow> 'a list \<Rightarrow> 'a list" where
  "array_sort le xs = foldr (insert_sorted le) xs []"

text \<open>
  Numbers are idealised: instants and their differences are integers, scores are reals.
  \<open>now\<close> is \<^verbatim>\<open>new Date()\<close>; a month is 30 days of milliseconds.
\<close>

definition getAccountAgeInMonths :: "int \<Rightarrow> int \<Rightarrow> int" where
  "getAccountAgeInMonths now created =
     (let diffTime = \<bar>now - created\<bar>;
          diffMonths = diffTime div (1000 * 60 * 60 * 24 * 30)
      in diffMonths)"

text \<open>The experience term of the score: \<^verbatim>\<open>Math.min(accountAgeMonths * 0.5, 5)\<close>.\<close>

definition experiencePoints :: "int \<Rightarrow> int \<Rightarrow> real" where
  "experiencePoints now created =
     min (real_of_int (getAccountAgeInMonths now created) * 0.5) 5"

definition getPainterCompletionRate :: "Booking list \<Rightarrow> string \<Rightarrow> real" where
  "getPainterCompletionRate bs pid =
     (let totalBookings = length (filter (\<lambda>b. painterId b = pid) bs)
      in if totalBookings = 0 then 0.5
         else let completedBookings =
                    length (filter (\<lambda>b. painterId b = pid \<and> status b = CONFIRMED) bs)
              in real completedBookings / real totalBookings)"

text \<open>\<open>r\<close> is the value \<^verbatim>\<open>Math.random()\<close> returned for this call.\<close>

definition getAverageResponseTime :: "real \<Rightarrow> real" where
  "getAverageResponseTime r = r * 7 + 1"

definition calculatePainterScore :: "int \<Rightarrow> Booking list \<Rightarrow> real \<Rightarrow> User \<Rightarrow> real" where
  "calculatePainterScore now bs r painter =
     (let score = 0 + 10;
          score = score + experiencePoints now (user_createdAt painter);
          completionRate = getPainterCompletionRate bs (user_id painter);
          score = score + completionRate * 5;
          avgResponseTime = getAverageResponseTime r
      in if avgResponseTime < 2 then score + 3
         else if avgResponseTime < 6 then score + 2
         else score + 1)"

text \<open>
  The comparator of \<^verbatim>\<open>findBestPainter\<close> on \<^verbatim>\<open>{ slot, score }\<close> pairs: the number it
  returns.
\<close>

definition compareScored :: "SlotWithPainter \<times> real \<Rightarrow> SlotWithPainter \<times> real \<Rightarrow> real" where
  "compareScored a b =
     (if snd b \<noteq> snd a then snd b - snd a
      else real_of_int (slot_startTime (fst (fst a)) - slot_startTime (fst (fst b))))"

text \<open>
  \<^verbatim>\<open>findBestPainter\<close>. \<open>scoreOf i slot\<close> is the number the awaited
  \<^verbatim>\<open>calculatePainterScore\<close> returned for the \<open>i\<close>-th candidate (each candidate is scored
  once, with its own random draw). \<open>hd\<close> reads \<^verbatim>\<open>scoredSlots[0]\<close> of a list that has at
  least two elements.
\<close>

definition findBestPainter ::
  "(nat \<Rightarrow> SlotWithPainter \<Rightarrow> real) \<Rightarrow> SlotWithPainter list \<Rightarrow> error + SlotWithPainter" where
  "findBestPainter scoreOf availableSlots =
     (if length availableSlots = 0 then Inl NoCandidates
      else if length availableSlots = 1 then Inr (hd availableSlots)
      else let scoredSlots = map (\<lambda>(i, slot). (slot, scoreOf i slot))
                               (enumerate 0 availableSlots);
               sortedSlots = array_sort (\<lambda>a b. compareScored a b \<le> 0) scoredSlots
           in Inr (fst (hd sortedSlots)))"

text \<open>The scores \<^verbatim>\<open>findBestPainter\<close> computes when it runs inside the service.\<close>

definition scoreCandidate ::
  "int \<Rightarrow> Booking list \<Rightarrow> (nat \<Rightarrow> real) \<Rightarrow> nat \<Rightarrow> SlotWithPainter \<Rightarrow> real" where
  "scoreCandidate now bs rand i slot = calculatePainterScore now bs (rand i) (snd slot)"

text \<open>
  \<^verbatim>\<open>findAlternativeSlots\<close>. The rows the query selects: painters with their slots that
  are free, inside the search window and long enough. The condition on the length
  compares the interval between the two timestamps of the slot with the parameter
  \<^verbatim>\<open>:duration\<close>, which is bound to a number of milliseconds and read by the database as
  that many seconds: in milliseconds, the slot must last \<open>duration * 1000\<close>.
\<close>

definition alternativeRows :: "int \<Rightarrow> int \<Rightarrow> int \<Rightarrow> Database \<Rightarrow> SlotWithPainter list" where
  "alternativeRows searchStart searchEnd duration db =
     concat (map (\<lambda>u. map (\<lambda>slot. (slot, u))
                        (filter (\<lambda>slot. slot_painterId slot = user_id u
                                   \<and> isBooked slot = False
                                   \<and> slot_startTime slot \<ge> searchStart
                                   \<and> slot_endTime slot \<le> searchEnd
                                   \<and> slot_endTime slot - slot_startTime slot \<ge> duration * 1000)
                           (slots db)))
                 (filter (\<lambda>u. userType u = PAINTER) (users db)))"

text \<open>
  \<^verbatim>\<open>getMany\<close> builds one user entity for each painter among the rows, in the order in
  which the painters first appear, each with its slots in the order of the rows;
  \<^verbatim>\<open>flatMap\<close> then lists the slots painter by painter.
\<close>

definition firstSeen :: "'a list \<Rightarrow> 'a list" where
  "firstSeen xs = rev (remdups (rev xs))"

definition groupByPainter :: "SlotWithPainter list \<Rightarrow> SlotWithPainter list" where
  "groupByPainter rows =
     concat (map (\<lambda>k. filter (\<lambda>r. user_id (snd r) = k) rows)
                 (firstSeen (map (\<lambda>r. user_id (snd r)) rows)))"

definition proximity :: "int \<Rightarrow> SlotWithPainter \<Rightarrow> int" where
  "proximity requestedStart a = \<bar>slot_startTime (fst a) - requestedStart\<bar>"

text \<open>
  The function itself. \<open>dbOrder\<close> is the order in which the database hands back the
  selected rows: the \<^verbatim>\<open>ORDER BY\<close> of the query and, among rows it does not tell apart,
  the choice of the database. It only decides which of two slots at the same distance
  comes first, since the slots are sorted again, stably, by the service. The three
  dates and the duration are parameters of the query, which fails when the database
  does not accept one of them.
\<close>

definition findAlternativeSlots ::
  "int \<Rightarrow> int \<Rightarrow> int \<Rightarrow> (SlotWithPainter list \<Rightarrow> SlotWithPainter list) \<Rightarrow> Database
     \<Rightarrow> error + SlotWithPainter list" where
  "findAlternativeSlots requestedStart requestedEnd windowHours dbOrder db =
     (let duration = requestedEnd - requestedStart;
          searchStart = newDate (requestedStart - windowHours * 60 * 60 * 1000);
          searchEnd = newDate (requestedEnd + windowHours * 60 * 60 * 1000)
      in if \<not> (acceptsTimestamp searchStart \<and> acceptsTimestamp searchEnd
                \<and> acceptsTimestamp (newDate requestedStart) \<and> acceptsInterval duration)
         then Inl QueryFailed
         else
           case (searchStart, searchEnd) of
             (Some windowStart, Some windowEnd) \<Rightarrow>
               (let alternatives = groupByPainter
                                     (dbOrder (alternativeRows windowStart windowEnd duration db));
                    sortedSlots =
                      array_sort
                        (\<lambda>a b. proximity requestedStart a - proximity requestedStart b \<le> 0)
                        (filter (\<lambda>a. \<not> isBooked (fst a)) alternatives)
                in Inr (take 5 sortedSlots))
           | _ \<Rightarrow> Inl QueryFailed)"

section \<open>Booking service (\<^verbatim>\<open>booking.service.ts\<close>)\<close>

text \<open>
  Every operation takes the database and returns its outcome together with the database
  it leaves behind, also when it throws: what was saved before the exception stays
  saved, since the service opens no transaction.
\<close>

definition findCustomer :: "string \<Rightarrow> Database \<Rightarrow> User option" where
  "findCustomer cid db = find (\<lambda>u. user_id u = cid \<and> userType u = CUSTOMER) (users db)"

text \<open>
  \<^verbatim>\<open>bookingRepository.save\<close> of a new entity inserts a row (the database supplies the
  id \<open>newId\<close> and both timestamps); of a loaded entity, it rewrites the row with that id.
\<close>

definition insertBooking :: "Booking \<Rightarrow> Database \<Rightarrow> Database" where
  "insertBooking b db = db\<lparr>bookings := bookings db @ [b]\<rparr>"

definition saveBooking :: "Booking \<Rightarrow> Database \<Rightarrow> Database" where
  "saveBooking b db =
     db\<lparr>bookings := map (\<lambda>x. if booking_id x = booking_id b then b else x) (bookings db)\<rparr>"

text \<open>
  The entity both creation paths build with \<^verbatim>\<open>bookingRepository.create\<close> and save: the
  status is always \<^verbatim>\<open>BookingStatus.CONFIRMED\<close>, the slot reference always set.
\<close>

definition newConfirmedBooking ::
  "string \<Rightarrow> string \<Rightarrow> AvailabilitySlot \<Rightarrow> int \<Rightarrow> int \<Rightarrow> int \<Rightarrow> Booking" where
  "newConfirmedBooking newId cid slot startT endT now =
     \<lparr>booking_id = newId, customerId = cid, painterId = slot_painterId slot,
      availabilitySlotId = Some (slot_id slot), startTime = startT, endTime = endT,
      status = CONFIRMED, createdAt = now, updatedAt = now\<rparr>"

definition reloadBooking :: "string \<Rightarrow> Database \<Rightarrow> Booking option" where
  "reloadBooking bid db = find (\<lambda>b. booking_id b = bid) (bookings db)"

record AlternativeSlotDto =
  dto_id :: string
  dto_painterId :: string
  dto_startTime :: int
  dto_endTime :: int
  dto_painter_id :: string

definition toAlternativeDto :: "SlotWithPainter \<Rightarrow> AlternativeSlotDto" where
  "toAlternativeDto slot =
     \<lparr>dto_id = slot_id (fst slot), dto_painterId = slot_painterId (fst slot),
      dto_startTime = slot_startTime (fst slot), dto_endTime = slot_endTime (fst slot),
      dto_painter_id = user_id (snd slot)\<rparr>"

text \<open>The two shapes of \<^verbatim>\<open>{ booking?, alternatives? }\<close> that \<^verbatim>\<open>createBooking\<close> returns.\<close>

datatype create_result =
    BookingCreated "Booking option"
  | AlternativesOffered "AlternativeSlotDto list"

text \<open>
  \<^verbatim>\<open>createBooking\<close>. \<open>now\<close> is \<^verbatim>\<open>new Date()\<close>, \<open>rand\<close> the random draws of the
  scorer, \<open>dbOrder\<close> the row order of the alternatives query. The service does not call
  \<^verbatim>\<open>timeRangeValidation\<close>; its two comparisons are both false on an invalid date, which
  then reaches the slot query as a parameter, where the database refuses it
  (\<open>QueryFailed\<close>).
\<close>

definition createBooking ::
  "string \<Rightarrow> Date \<Rightarrow> Date \<Rightarrow> int \<Rightarrow> string \<Rightarrow> (nat \<Rightarrow> real)
     \<Rightarrow> (SlotWithPainter list \<Rightarrow> SlotWithPainter list) \<Rightarrow> Database
     \<Rightarrow> (error + create_result) \<times> Database" where
  "createBooking cid startT endT now newId rand dbOrder db =
     (case findCustomer cid db of
        None \<Rightarrow> (Inl NotFound, db)
      | Some customer \<Rightarrow>
          if date_ge startT endT then (Inl InvalidRange, db)
          else if date_lt startT (Some now) then (Inl PastSchedule, db)
          else if \<not> (acceptsTimestamp startT \<and> acceptsTimestamp endT) then
            (Inl QueryFailed, db)
          else
            case (startT, endT) of
              (Some s, Some e) \<Rightarrow>
                (let availableSlots = findAvailablePaintersForTimeSlot s e db
                 in if length availableSlots = 0 then
                      (case findAlternativeSlots s e 24 dbOrder db of
                         Inl err \<Rightarrow> (Inl err, db)
                       | Inr alternatives \<Rightarrow>
                           (Inr (AlternativesOffered (map toAlternativeDto alternatives)), db))
                    else
                      case findBestPainter (scoreCandidate now (bookings db) rand)
                             availableSlots of
                        Inl err \<Rightarrow> (Inl err, db)
                      | Inr selectedSlot \<Rightarrow>
                          let booking =
                                newConfirmedBooking newId cid (fst selectedSlot) s e now;
                              db1 = insertBooking booking db
                          in case markSlotAsBooked
                                    (SlotIdString (slot_id (fst selectedSlot))) db1 of
                               Inl err \<Rightarrow> (Inl err, db1)
                             | Inr db2 \<Rightarrow>
                                 (Inr (BookingCreated (reloadBooking newId db2)), db2))
            | _ \<Rightarrow> (Inl QueryFailed, db))"

text \<open>
  \<^verbatim>\<open>findBookingById\<close>: the scope applies when \<^verbatim>\<open>userId\<close> is truthy, that is, given and
  not the empty string.
\<close>

fun inScope :: "string option \<Rightarrow> Booking \<Rightarrow> bool" where
  "inScope None b = True"
| "inScope (Some u) b = (if u = [] then True else customerId b = u \<or> painterId b = u)"

definition findBookingById :: "string \<Rightarrow> string option \<Rightarrow> Database \<Rightarrow> error + Booking" where
  "findBookingById bid userId db =
     (case find (\<lambda>b. booking_id b = bid \<and> inScope userId b) (bookings db) of
        None \<Rightarrow> Inl NotFound
      | Some b \<Rightarrow> Inr b)"

text \<open>
  \<^verbatim>\<open>booking.availabilitySlotId\<close>, a nullable string: as a condition it holds when the id
  is set and not empty; as an argument it is the string, or \<^verbatim>\<open>null\<close>.
\<close>

fun truthy :: "string option \<Rightarrow> bool" where
  "truthy None = False"
| "truthy (Some k) = (k \<noteq> [])"

fun idArg :: "string option \<Rightarrow> slot_arg" where
  "idArg None = NoSlot"
| "idArg (Some k) = SlotIdString k"

definition updateBookingStatus ::
  "string \<Rightarrow> BookingStatus \<Rightarrow> string \<Rightarrow> int \<Rightarrow> Database \<Rightarrow> (error + Booking) \<times> Database" where
  "updateBookingStatus bid newStatus userId now db =
     (case findBookingById bid (Some userId) db of
        Inl e \<Rightarrow> (Inl e, db)
      | Inr booking \<Rightarrow>
          if status booking = CANCELLED then (Inl InvalidTransition, db)
          else if newStatus = status booking then (Inl InvalidTransition, db)
          else
            let updatedBooking = booking\<lparr>status := newStatus, updatedAt := now\<rparr>;
                db1 = saveBooking updatedBooking db
            in if newStatus = CANCELLED \<and> truthy (availabilitySlotId booking) then
                 (case markSlotAsBooked (idArg (availabilitySlotId booking)) db1 of
                    Inl e \<Rightarrow> (Inl e, db1)
                  | Inr db2 \<Rightarrow> (Inr updatedBooking, db2))
               else (Inr updatedBooking, db1))"

text \<open>
  \<^verbatim>\<open>bookAlternativeSlot\<close>. The end of the booking is \<^verbatim>\<open>new Date\<close> of a sum, which is the
  invalid date when the sum leaves the range of dates; the comparison with the end of
  the slot is then false, and the booking is refused by the database when it is saved.
\<close>

definition bookAlternativeSlot ::
  "string \<Rightarrow> string \<Rightarrow> int \<Rightarrow> int \<Rightarrow> string \<Rightarrow> Database \<Rightarrow> (error + Booking) \<times> Database" where
  "bookAlternativeSlot cid slotId duration now newId db =
     (case findCustomer cid db of
        None \<Rightarrow> (Inl NotFound, db)
      | Some customer \<Rightarrow>
          case findSlotById slotId db of
            None \<Rightarrow> (Inl NotFound, db)
          | Some slot \<Rightarrow>
              if isBooked slot then (Inl NotFound, db)
              else
                let endDate = newDate (slot_startTime slot + duration)
                in if date_gt endDate (Some (slot_endTime slot)) then (Inl InvalidRange, db)
                   else if \<not> acceptsTimestamp endDate then (Inl QueryFailed, db)
                   else
                     case endDate of
                       None \<Rightarrow> (Inl QueryFailed, db)
                     | Some endT \<Rightarrow>
                         let booking =
                               newConfirmedBooking newId cid slot (slot_startTime slot) endT now;
                             db1 = insertBooking booking db
                         in case markSlotAsBooked (SlotIdString (slot_id slot)) db1 of
                              Inl e \<Rightarrow> (Inl e, db1)
                            | Inr db2 \<Rightarrow>
                                (case reloadBooking newId db2 of
                                   None \<Rightarrow> (Inl NotFound, db2)
                                 | Some b \<Rightarrow> (Inr b, db2)))"


section \<open>Example data\<close>

text \<open>
  Instants are milliseconds counted from midnight (UTC) of a day D, which is also the
  current time of the examples: 10:00 on day D is \<open>36000000\<close>, 06:00 on the day after
  is \<open>108000000\<close>.
\<close>

definition painterP :: User where
  "painterP = \<lparr>user_id = ''P'', userType = PAINTER, user_createdAt = 0\<rparr>"

definition painterQ :: User where
  "painterQ = \<lparr>user_id = ''Q'', userType = PAINTER, user_createdAt = 0\<rparr>"

definition customerC :: User where
  "customerC = \<lparr>user_id = ''C'', userType = CUSTOMER, user_createdAt = 0\<rparr>"

text \<open>Painter P is free 10:00--14:00 on day D, painter Q 09:00--15:00.\<close>

definition slotS :: AvailabilitySlot where
  "slotS = \<lparr>slot_id = ''S'', slot_painterId = ''P'', slot_startTime = 36000000,
            slot_endTime = 50400000, isBooked = False\<rparr>"

definition slotT :: AvailabilitySlot where
  "slotT = \<lparr>slot_id = ''T'', slot_painterId = ''Q'', slot_startTime = 32400000,
            slot_endTime = 54000000, isBooked = False\<rparr>"


text \<open>A confirmed booking of customer C with painter P, 11:00--13:00, on slot S.\<close>

definition bookingB :: Booking where
  "bookingB = \<lparr>booking_id = ''B'', customerId = ''C'', painterId = ''P'',
               availabilitySlotId = Some ''S'', startTime = 39600000, endTime = 46800000,
               status = CONFIRMED, createdAt = 0, updatedAt = 0\<rparr>"

definition db_one :: Database where
  "db_one = \<lparr>users = [painterP, customerC], slots = [slotS], bookings = []\<rparr>"



definition db_one_reserved :: Database where
  "db_one_reserved = \<lparr>users = [painterP, customerC], slots = [slotS\<lparr>isBooked := True\<rparr>],
                      bookings = []\<rparr>"

definition db_cancelled :: Database where
  "db_cancelled = \<lparr>users = [painterP, customerC], slots = [slotS],
                   bookings = [bookingB\<lparr>status := CANCELLED\<rparr>]\<rparr>"

definition db_booked :: Database where
  "db_booked = \<lparr>users = [painterP, customerC], slots = [slotS\<lparr>isBooked := True\<rparr>],
                bookings = [bookingB]\<rparr>"


text \<open>No random draw makes a difference in the examples: every draw is \<open>0\<close>.\<close>

definition no_rand :: "nat \<Rightarrow> real" where
  "no_rand i = 0"

section \<open>The stable sort\<close>

lemma set_insert_sorted: "set (insert_sorted le x ys) = insert x (set ys)"
  by (induction ys) auto

lemma set_array_sort: "set (array_sort le xs) = set xs"
  unfolding array_sort_def by (induction xs) (simp_all add: set_insert_sorted)

lemma length_insert_sorted: "length (insert_sorted le x ys) = Suc (length ys)"
  by (induction ys) auto

lemma length_array_sort: "length (array_sort le xs) = length xs"
  unfolding array_sort_def by (induction xs) (simp_all add: length_insert_sorted)

text \<open>A comparator that is total and transitive yields an ordered array.\<close>

lemma sorted_wrt_insert_sorted:
  assumes total: "\<And>a b. le a b \<or> le b a"
      and trans: "\<And>a b c. le a b \<Longrightarrow> le b c \<Longrightarrow> le a c"
      and srt: "sorted_wrt le ys"
  shows "sorted_wrt le (insert_sorted le x ys)"
  using srt
proof (induction ys)
  case Nil
  show ?case by simp
next
  case (Cons y ys)
  show ?case
  proof (cases "le x y")
    case True
    have "\<forall>z\<in>set ys. le x z" using Cons.prems True trans by auto
    with True Cons.prems show ?thesis by simp
  next
    case False
    then have "le y x" using total by blast
    with False Cons show ?thesis by (auto simp: set_insert_sorted)
  qed
qed

lemma sorted_wrt_array_sort:
  assumes total: "\<And>a b. le a b \<or> le b a"
      and trans: "\<And>a b c. le a b \<Longrightarrow> le b c \<Longrightarrow> le a c"
  shows "sorted_wrt le (array_sort le xs)"
  unfolding array_sort_def
proof (induction xs)
  case Nil
  show ?case by simp
next
  case (Cons x xs)
  then show ?case using sorted_wrt_insert_sorted [of le, OF total trans] by simp
qed

lemma hd_array_sort_least:
  assumes total: "\<And>a b. le a b \<or> le b a"
      and trans: "\<And>a b c. le a b \<Longrightarrow> le b c \<Longrightarrow> le a c"
      and ne: "xs \<noteq> []"
  shows "hd (array_sort le xs) \<in> set xs \<and> (\<forall>y\<in>set xs. le (hd (array_sort le xs)) y)"
proof -
  let ?s = "array_sort le xs"
  have nonempty: "?s \<noteq> []" using ne length_array_sort [of le xs] by (metis length_0_conv)
  then obtain h t where s: "?s = h # t" by (cases ?s) auto
  have "sorted_wrt le (h # t)" using sorted_wrt_array_sort [of le xs, OF total trans] s by simp
  then have below: "\<forall>y\<in>set t. le h y" by simp
  have refl: "le h h" using total by blast
  have "set xs = insert h (set t)" using set_array_sort [of le xs] s by simp
  with below refl s show ?thesis by auto
qed

section \<open>Selecting the best painter\<close>

lemma compareScored_total: "compareScored a b \<le> 0 \<or> compareScored b a \<le> 0"
  unfolding compareScored_def by auto

lemma compareScored_trans:
  "compareScored a b \<le> 0 \<Longrightarrow> compareScored b c \<le> 0 \<Longrightarrow> compareScored a c \<le> 0"
  unfolding compareScored_def by (auto split: if_splits)

lemma set_scored:
  "set (map (\<lambda>(i, slot). (slot, scoreOf i slot)) (enumerate 0 cs))
     = {(cs ! i, scoreOf i (cs ! i)) | i. i < length cs}"
  by (auto simp: in_set_enumerate_eq image_iff)

text \<open>
  Claim C7. \<^verbatim>\<open>findBestPainter\<close> fails with \<open>NoCandidates\<close> on the empty list; a single
  candidate is returned whatever the scorer is, so the scorer has no part in it; with two
  or more candidates the result is one of them whose score is maximal among the scores
  computed for the candidates, and no candidate with that same score starts earlier.
\<close>

theorem findBestPainter_selects:
  "findBestPainter scoreOf [] = Inl NoCandidates
   \<and> findBestPainter scoreOf [c] = Inr c
   \<and> (2 \<le> length cs \<longrightarrow>
        (\<exists>i < length cs.
           findBestPainter scoreOf cs = Inr (cs ! i)
           \<and> (\<forall>j < length cs. scoreOf j (cs ! j) \<le> scoreOf i (cs ! i))
           \<and> (\<forall>j < length cs. scoreOf j (cs ! j) = scoreOf i (cs ! i)
                  \<longrightarrow> slot_startTime (fst (cs ! i)) \<le> slot_startTime (fst (cs ! j)))))"
proof (intro conjI impI)
  show "findBestPainter scoreOf [] = Inl NoCandidates" by (simp add: findBestPainter_def)
  show "findBestPainter scoreOf [c] = Inr c" by (simp add: findBestPainter_def)
next
  assume len: "2 \<le> length cs"
  let ?le = "\<lambda>a b. compareScored a b \<le> 0"
  let ?scored = "map (\<lambda>(i, slot). (slot, scoreOf i slot)) (enumerate 0 cs)"
  let ?h = "hd (array_sort ?le ?scored)"
  have "length ?scored = length cs" by simp
  then have ne: "?scored \<noteq> []" using len by (metis length_0_conv not_numeral_le_zero)
  have least: "?h \<in> set ?scored \<and> (\<forall>y\<in>set ?scored. ?le ?h y)"
    by (rule hd_array_sort_least [of ?le, OF compareScored_total compareScored_trans ne])
  then obtain i where i: "i < length cs" and h: "?h = (cs ! i, scoreOf i (cs ! i))"
    unfolding set_scored by blast
  have many: "cs \<noteq> []" "length cs \<noteq> 1" using len by auto
  have res: "findBestPainter scoreOf cs = Inr (cs ! i)"
    using many h by (simp add: findBestPainter_def Let_def)
  have cmp: "compareScored (cs ! i, scoreOf i (cs ! i)) (cs ! j, scoreOf j (cs ! j)) \<le> 0"
    if "j < length cs" for j
  proof -
    have mem: "(cs ! j, scoreOf j (cs ! j)) \<in> set ?scored"
      unfolding set_scored using that by blast
    from least have "\<forall>y\<in>set ?scored. compareScored ?h y \<le> 0" by (rule conjunct2)
    then have "compareScored ?h (cs ! j, scoreOf j (cs ! j)) \<le> 0" using mem by (rule bspec)
    then show ?thesis by (simp only: h)
  qed
  have mx: "scoreOf j (cs ! j) \<le> scoreOf i (cs ! i)" if "j < length cs" for j
    using cmp [OF that] by (simp add: compareScored_def split: if_splits)
  have tie: "slot_startTime (fst (cs ! i)) \<le> slot_startTime (fst (cs ! j))"
    if "j < length cs" and "scoreOf j (cs ! j) = scoreOf i (cs ! i)" for j
    using cmp [OF that(1)] that(2) by (simp add: compareScored_def)
  show "\<exists>i < length cs.
           findBestPainter scoreOf cs = Inr (cs ! i)
           \<and> (\<forall>j < length cs. scoreOf j (cs ! j) \<le> scoreOf i (cs ! i))
           \<and> (\<forall>j < length cs. scoreOf j (cs ! j) = scoreOf i (cs ! i)
                  \<longrightarrow> slot_startTime (fst (cs ! i)) \<le> slot_startTime (fst (cs ! j)))"
    using i res mx tie by blast
qed

text \<open>
  Two candidates with the same score: the theorem leaves only the one that starts at
  09:00, although it comes second in the list.
\<close>

theorem findBestPainter_selects_witness:
  "2 \<le> length [(slotS, painterP), (slotT, painterQ)]
   \<and> findBestPainter (\<lambda>i slot. 10) [(slotS, painterP), (slotT, painterQ)]
       = Inr (slotT, painterQ)"
proof -
  let ?cs = "[(slotS, painterP), (slotT, painterQ)]"
  let ?sc = "\<lambda>(i::nat) (slot::SlotWithPainter). (10::real)"
  have len: "2 \<le> length ?cs" by simp
  from findBestPainter_selects [of ?sc "(slotS, painterP)" ?cs] len
  obtain i where i: "i < length ?cs"
    and res: "findBestPainter ?sc ?cs = Inr (?cs ! i)"
    and tie: "\<forall>j < length ?cs. ?sc j (?cs ! j) = ?sc i (?cs ! i)
                \<longrightarrow> slot_startTime (fst (?cs ! i)) \<le> slot_startTime (fst (?cs ! j))"
    by blast
  have "1 < length ?cs" by simp
  with tie have "slot_startTime (fst (?cs ! i)) \<le> slot_startTime (fst (?cs ! 1))" by blast
  then have "i \<noteq> 0" by (cases "i = 0") (simp_all add: slotS_def slotT_def)
  with i have "i = 1" by simp
  with res len show ?thesis by simp
qed


section \<open>Reserving a slot\<close>

lemma find_slot_id: "find (\<lambda>x. slot_id x = k) xs = Some s \<Longrightarrow> slot_id s = k"
  by (induction xs) (auto split: if_splits)

lemma find_after_update:
  "find (\<lambda>x. slot_id x = k)
     (map (\<lambda>s. if slot_id s = k then s\<lparr>isBooked := flag\<rparr> else s) xs)
     = map_option (\<lambda>s. s\<lparr>isBooked := flag\<rparr>) (find (\<lambda>x. slot_id x = k) xs)"
  by (induction xs) auto

lemma markSlotAsBooked_entity_Inr:
  "markSlotAsBooked (SlotEntity s) db = Inr db' \<Longrightarrow>
     \<not> isBooked s \<and> slot_id s \<noteq> []
     \<and> db' = db\<lparr>slots := map (\<lambda>x. if slot_id x = slot_id s then x\<lparr>isBooked := True\<rparr> else x)
                             (slots db)\<rparr>"
  by (auto simp: markSlotAsBooked_def repository_update_def split: if_splits)

text \<open>The errors \<^verbatim>\<open>markSlotAsBooked\<close> can end with.\<close>

lemma markSlotAsBooked_error:
  "markSlotAsBooked a db = Inl x \<Longrightarrow> x = NotFound \<or> x = Conflict \<or> x = EmptyCriteria"
  by (auto simp: markSlotAsBooked_def repository_update_def split: option.splits if_splits)

text \<open>
  Given the id string that the booking service passes, neither guard can fire on a
  non-empty id, and the update is issued without criteria.
\<close>

lemma markSlotAsBooked_id_string:
  "markSlotAsBooked (SlotIdString k) db = Inl (if k = [] then NotFound else EmptyCriteria)"
  by (simp add: markSlotAsBooked_def repository_update_def)

text \<open>
  Claim C6, as amended. \<^verbatim>\<open>markSlotAsBooked\<close> decides on the value it is handed, not on
  the stored row: handed a slot entity whose \<^verbatim>\<open>isBooked\<close> is true it fails with
  \<open>Conflict\<close>, handed no slot (what \<^verbatim>\<open>findSlotById\<close> returns for an id that is not in
  the store) it fails with \<open>NotFound\<close>, and in both cases nothing is written (an error
  carries no new database). After a successful reservation, a second one fails with
  \<open>Conflict\<close> when it is handed the slot as read again from the store.
\<close>

theorem markSlotAsBooked_guards:
  "(isBooked s \<longrightarrow> markSlotAsBooked (SlotEntity s) db = Inl Conflict)
   \<and> markSlotAsBooked NoSlot db = Inl NotFound
   \<and> (findSlotById k db = None
        \<longrightarrow> markSlotAsBooked (loaded (findSlotById k db)) db = Inl NotFound)
   \<and> (findSlotById k db = Some s \<and> markSlotAsBooked (SlotEntity s) db = Inr db'
        \<longrightarrow> markSlotAsBooked (loaded (findSlotById k db')) db' = Inl Conflict)"
proof (intro conjI impI)
  show "markSlotAsBooked (SlotEntity s) db = Inl Conflict" if "isBooked s"
    using that by (simp add: markSlotAsBooked_def)
  show "markSlotAsBooked NoSlot db = Inl NotFound"
    by (simp add: markSlotAsBooked_def)
  show "markSlotAsBooked (loaded (findSlotById k db)) db = Inl NotFound"
    if "findSlotById k db = None"
    using that by (simp add: markSlotAsBooked_def)
next
  assume a: "findSlotById k db = Some s \<and> markSlotAsBooked (SlotEntity s) db = Inr db'"
  then have found: "find (\<lambda>x. slot_id x = k) (slots db) = Some s"
    by (simp add: findSlotById_def)
  then have k: "slot_id s = k" by (rule find_slot_id)
  from a have db': "db' = db\<lparr>slots := map (\<lambda>x. if slot_id x = k then x\<lparr>isBooked := True\<rparr> else x)
                                       (slots db)\<rparr>"
    using markSlotAsBooked_entity_Inr [of s db db'] k by simp
  have "findSlotById k db' = Some (s\<lparr>isBooked := True\<rparr>)"
    unfolding findSlotById_def db' using found by (simp add: find_after_update)
  then show "markSlotAsBooked (loaded (findSlotById k db')) db' = Inl Conflict"
    by (simp add: markSlotAsBooked_def)
qed

theorem markSlotAsBooked_guards_witness:
  "isBooked (slotS\<lparr>isBooked := True\<rparr>)
   \<and> markSlotAsBooked (SlotEntity (slotS\<lparr>isBooked := True\<rparr>)) db_one_reserved = Inl Conflict
   \<and> findSlotById ''X'' db_one = None
   \<and> markSlotAsBooked (loaded (findSlotById ''X'' db_one)) db_one = Inl NotFound
   \<and> findSlotById ''S'' db_one = Some slotS
   \<and> markSlotAsBooked (SlotEntity slotS) db_one = Inr db_one_reserved
   \<and> markSlotAsBooked (loaded (findSlotById ''S'' db_one_reserved)) db_one_reserved
       = Inl Conflict"
proof -
  have h1: "isBooked (slotS\<lparr>isBooked := True\<rparr>)" by simp
  have h2: "findSlotById ''X'' db_one = None" by code_simp
  have h3: "findSlotById ''S'' db_one = Some slotS" by code_simp
  have h4: "markSlotAsBooked (SlotEntity slotS) db_one = Inr db_one_reserved" by code_simp
  show ?thesis
    using h1 h2 h3 h4
      markSlotAsBooked_guards [of "slotS\<lparr>isBooked := True\<rparr>" db_one_reserved "''X''" db_one]
      markSlotAsBooked_guards [of slotS db_one "''X''" db_one_reserved]
      markSlotAsBooked_guards [of slotS db_one "''S''" db_one_reserved]
    by simp
qed

text \<open>
  Against claim C6 as stated. A caller that holds the entity of slot S, read while S
  was free, reserves it twice with no release in between, and the second call succeeds as
  the first did. An entity whose id \<open>X\<close> is not in the store is accepted, and nothing is
  written; the id string \<open>X\<close> itself ends in \<open>EmptyCriteria\<close>; neither is \<open>NotFound\<close>.
\<close>

theorem markSlotAsBooked_stale_counterexample:
  "markSlotAsBooked (SlotEntity slotS) db_one = Inr db_one_reserved
   \<and> markSlotAsBooked (SlotEntity slotS) db_one_reserved = Inr db_one_reserved
   \<and> findSlotById ''X'' db_one = None
   \<and> markSlotAsBooked (SlotEntity (slotS\<lparr>slot_id := ''X''\<rparr>)) db_one = Inr db_one
   \<and> markSlotAsBooked (SlotIdString ''X'') db_one = Inl EmptyCriteria"
  by code_simp

section \<open>Creating a booking\<close>

lemma findAlternativeSlots_error:
  "findAlternativeSlots rs re w dbOrder db = Inl e \<Longrightarrow> e = QueryFailed"
  by (simp add: findAlternativeSlots_def Let_def split: if_splits option.splits)

lemma findBestPainter_error:
  "findBestPainter scoreOf cs = Inl e \<Longrightarrow> e = NoCandidates"
  by (simp add: findBestPainter_def Let_def split: if_splits)

text \<open>
  Whatever the request, \<^verbatim>\<open>createBooking\<close> leaves the slot table as it found it, and the
  exception for an unreadable date is not among its results.
\<close>

lemma createBooking_slots_unchanged:
  "slots (snd (createBooking cid startT endT now newId rand dbOrder db)) = slots db"
  by (simp add: createBooking_def Let_def insertBooking_def markSlotAsBooked_id_string
           split: option.splits sum.splits)

lemma createBooking_never_InvalidInput:
  "fst (createBooking cid startT endT now newId rand dbOrder db) \<noteq> Inl InvalidInput"
  by (auto simp: createBooking_def Let_def markSlotAsBooked_id_string
           dest: findBestPainter_error findAlternativeSlots_error
           split: option.splits sum.splits)

text \<open>
  Claim C1, on the scenario of the specification: painter P has one free slot
  10:00--14:00 on day D and customer C asks for 11:00--13:00. The confirmed booking that
  references slot S is saved, but the reservation that follows is called with the id
  string: it ends in \<open>EmptyCriteria\<close>, which is what the caller gets, and slot S is
  still free afterwards.
\<close>

theorem createBooking_scenario_slot_not_reserved:
  "createBooking ''C'' (Some 39600000) (Some 46800000) 0 ''B'' no_rand dbOrder db_one
     = (Inl EmptyCriteria, db_one\<lparr>bookings := [bookingB]\<rparr>)
   \<and> findSlotById ''S'' (db_one\<lparr>bookings := [bookingB]\<rparr>) = Some slotS
   \<and> isBooked slotS = False"
  by (simp add: createBooking_def db_one_def painterP_def customerC_def slotS_def bookingB_def
        findCustomer_def findAvailablePaintersForTimeSlot_def List.map_filter_def withPainter_def
        findBestPainter_def insertBooking_def markSlotAsBooked_id_string newConfirmedBooking_def
        findSlotById_def)

text \<open>
  Claim C4, at a start time that does not parse. \<^verbatim>\<open>timeRangeValidation\<close>, which
  availability creation calls, answers \<open>InvalidInput\<close>; \<^verbatim>\<open>createBooking\<close> does not call
  it, its own two comparisons let the invalid date through, and the request ends in the
  slot query instead.
\<close>

theorem createBooking_unparsed_start_not_InvalidInput:
  "timeRangeValidation None (Some 46800000) 0 = Inl InvalidInput
   \<and> date_ge None (Some 46800000) = False
   \<and> date_lt None (Some 0) = False
   \<and> createBooking ''C'' None (Some 46800000) 0 ''B'' no_rand dbOrder db_one
       = (Inl QueryFailed, db_one)"
  by (simp add: createBooking_def timeRangeValidation_def db_one_def painterP_def customerC_def
        findCustomer_def)

text \<open>
  The reservation step of \<^verbatim>\<open>createBooking\<close> cannot end in \<open>Conflict\<close>: the guard that
  throws it reads \<^verbatim>\<open>isBooked\<close> off the id string, whatever the stored slot says. No call
  of \<^verbatim>\<open>createBooking\<close> ends in \<open>Conflict\<close>.
\<close>

lemma createBooking_never_Conflict:
  "fst (createBooking cid startT endT now newId rand dbOrder db) \<noteq> Inl Conflict"
  by (auto simp: createBooking_def Let_def markSlotAsBooked_id_string
           dest: findBestPainter_error findAlternativeSlots_error
           split: option.splits sum.splits)

section \<open>Changing the status of a booking\<close>

lemma findBookingById_Inr:
  assumes "findBookingById bid uid db = Inr b"
  shows "booking_id b = bid \<and> find (\<lambda>x. booking_id x = bid) (bookings db) \<noteq> None"
proof -
  from assms
  have "find (\<lambda>x. booking_id x = bid \<and> inScope uid x) (bookings db) = Some b"
    by (simp add: findBookingById_def split: option.splits)
  then have "b \<in> set (bookings db) \<and> booking_id b = bid"
    by (auto simp: find_Some_iff)
  then show ?thesis by (auto simp: find_None_iff)
qed

lemma reload_after_save:
  "find (\<lambda>x. booking_id x = bid) bs \<noteq> None \<Longrightarrow> booking_id b' = bid \<Longrightarrow>
     find (\<lambda>x. booking_id x = bid) (map (\<lambda>x. if booking_id x = bid then b' else x) bs)
       = Some b'"
  by (induction bs) auto

text \<open>
  Claim C2, on a confirmed booking B of customer C that references the reserved slot S:
  C cancels. The status is saved as cancelled, then \<^verbatim>\<open>markSlotAsBooked\<close> is called, with
  the id string: the call ends in \<open>EmptyCriteria\<close> and S is still reserved. The last two
  lines show the two functions on the entity of S: the one that is called refuses a
  reserved slot, and it is \<^verbatim>\<open>markSlotAsAvailable\<close>, which is not called, that would free
  it.
\<close>

theorem updateBookingStatus_cancel_slot_stays_reserved:
  "updateBookingStatus ''B'' CANCELLED ''C'' 1000 db_booked
     = (Inl EmptyCriteria,
        db_booked\<lparr>bookings := [bookingB\<lparr>status := CANCELLED, updatedAt := 1000\<rparr>]\<rparr>)
   \<and> findSlotById ''S''
         (db_booked\<lparr>bookings := [bookingB\<lparr>status := CANCELLED, updatedAt := 1000\<rparr>]\<rparr>)
       = Some (slotS\<lparr>isBooked := True\<rparr>)
   \<and> markSlotAsBooked (SlotEntity (slotS\<lparr>isBooked := True\<rparr>)) db_booked = Inl Conflict
   \<and> markSlotAsAvailable (SlotEntity (slotS\<lparr>isBooked := True\<rparr>)) db_booked
       = Inr (db_booked\<lparr>slots := [slotS]\<rparr>)"
  by code_simp

text \<open>
  Against claim C5 as stated. Customer C asks to set the confirmed booking B back to
  pending: the call succeeds and the booking is pending afterwards.
\<close>

theorem updateBookingStatus_confirmed_to_pending_counterexample:
  "updateBookingStatus ''B'' PENDING ''C'' 1000 db_booked
     = (Inr (bookingB\<lparr>status := PENDING, updatedAt := 1000\<rparr>),
        db_booked\<lparr>bookings := [bookingB\<lparr>status := PENDING, updatedAt := 1000\<rparr>]\<rparr>)"
  by code_simp

text \<open>
  Claim C5, as amended. For a booking the requester may see, \<^verbatim>\<open>updateBookingStatus\<close>
  fails with \<open>InvalidTransition\<close>, leaving the database as it was, when the booking is
  cancelled or already has the requested status. Every other request passes the
  transition check (from confirmed back to pending as well): the call does not end in
  \<open>InvalidTransition\<close>, and the booking is saved with the new status and the new update
  time. When the new status is not cancelled, the call returns the updated booking.
\<close>

theorem updateBookingStatus_transition_check:
  assumes found: "findBookingById bid (Some uid) db = Inr b"
  shows "(status b = CANCELLED \<or> new = status b
            \<longrightarrow> updateBookingStatus bid new uid now db = (Inl InvalidTransition, db))
       \<and> (status b \<noteq> CANCELLED \<and> new \<noteq> status b
            \<longrightarrow> fst (updateBookingStatus bid new uid now db) \<noteq> Inl InvalidTransition
              \<and> bookings (snd (updateBookingStatus bid new uid now db))
                  = bookings (saveBooking (b\<lparr>status := new, updatedAt := now\<rparr>) db)
              \<and> reloadBooking bid (snd (updateBookingStatus bid new uid now db))
                  = Some (b\<lparr>status := new, updatedAt := now\<rparr>))
       \<and> (status b \<noteq> CANCELLED \<and> new \<noteq> status b \<and> new \<noteq> CANCELLED
            \<longrightarrow> updateBookingStatus bid new uid now db
                  = (Inr (b\<lparr>status := new, updatedAt := now\<rparr>),
                     saveBooking (b\<lparr>status := new, updatedAt := now\<rparr>) db))"
proof (intro conjI impI)
  let ?b' = "b\<lparr>status := new, updatedAt := now\<rparr>"
  show "updateBookingStatus bid new uid now db = (Inl InvalidTransition, db)"
    if "status b = CANCELLED \<or> new = status b"
    using that found by (auto simp: updateBookingStatus_def)
  show "updateBookingStatus bid new uid now db = (Inr ?b', saveBooking ?b' db)"
    if "status b \<noteq> CANCELLED \<and> new \<noteq> status b \<and> new \<noteq> CANCELLED"
    using that found by (simp add: updateBookingStatus_def Let_def)
  assume ok: "status b \<noteq> CANCELLED \<and> new \<noteq> status b"
  show "fst (updateBookingStatus bid new uid now db) \<noteq> Inl InvalidTransition"
    using ok found
    by (auto simp: updateBookingStatus_def Let_def split: sum.splits
             dest: markSlotAsBooked_error)
  have saved: "bookings (snd (updateBookingStatus bid new uid now db))
                 = bookings (saveBooking ?b' db)"
    using ok found
    by (simp add: updateBookingStatus_def Let_def markSlotAsBooked_def repository_update_def
             saveBooking_def split: sum.splits option.splits)
  then show "bookings (snd (updateBookingStatus bid new uid now db))
               = bookings (saveBooking ?b' db)" .
  have idb: "booking_id b = bid"
    and ex: "find (\<lambda>x. booking_id x = bid) (bookings db) \<noteq> None"
    using findBookingById_Inr [OF found] by simp_all
  have "find (\<lambda>x. booking_id x = bid) (bookings (saveBooking ?b' db)) = Some ?b'"
    using reload_after_save [OF ex, of ?b'] idb by (simp add: saveBooking_def)
  then show "reloadBooking bid (snd (updateBookingStatus bid new uid now db)) = Some ?b'"
    using saved by (simp add: reloadBooking_def)
qed

theorem updateBookingStatus_transition_check_witness:
  "findBookingById ''B'' (Some ''C'') db_booked = Inr bookingB
   \<and> findBookingById ''B'' (Some ''C'') db_cancelled = Inr (bookingB\<lparr>status := CANCELLED\<rparr>)
   \<and> updateBookingStatus ''B'' CONFIRMED ''C'' 1000 db_cancelled
       = (Inl InvalidTransition, db_cancelled)
   \<and> updateBookingStatus ''B'' CONFIRMED ''C'' 1000 db_booked
       = (Inl InvalidTransition, db_booked)
   \<and> reloadBooking ''B'' (snd (updateBookingStatus ''B'' CANCELLED ''C'' 1000 db_booked))
       = Some (bookingB\<lparr>status := CANCELLED, updatedAt := 1000\<rparr>)
   \<and> updateBookingStatus ''B'' PENDING ''C'' 1000 db_booked
       = (Inr (bookingB\<lparr>status := PENDING, updatedAt := 1000\<rparr>),
          saveBooking (bookingB\<lparr>status := PENDING, updatedAt := 1000\<rparr>) db_booked)"
proof -
  have h1: "findBookingById ''B'' (Some ''C'') db_booked = Inr bookingB" by code_simp
  have h2: "findBookingById ''B'' (Some ''C'') db_cancelled
              = Inr (bookingB\<lparr>status := CANCELLED\<rparr>)"
    by code_simp
  have s: "status bookingB = CONFIRMED" by (simp add: bookingB_def)
  show ?thesis
    using h1 h2 s
      updateBookingStatus_transition_check [OF h2, of CONFIRMED 1000]
      updateBookingStatus_transition_check [OF h1, of CONFIRMED 1000]
      updateBookingStatus_transition_check [OF h1, of CANCELLED 1000]
      updateBookingStatus_transition_check [OF h1, of PENDING 1000]
    by simp
qed

section \<open>Booking an alternative slot\<close>

text \<open>
  A duration that is zero or negative passes the only range check there is, and, when
  the end it gives is a date the database accepts, the booking that is saved ends no
  later than it starts.
\<close>

lemma bookAlternativeSlot_nonpositive_duration:
  assumes cust: "findCustomer cid db = Some customer"
      and slot: "findSlotById slotId db = Some slot"
      and free: "\<not> isBooked slot"
      and valid: "slot_startTime slot < slot_endTime slot"
      and dur: "duration \<le> 0"
      and date: "- 210866803200000 \<le> slot_startTime slot + duration"
                "slot_startTime slot \<le> 8640000000000000"
  shows "bookings (snd (bookAlternativeSlot cid slotId duration now newId db))
           = bookings db @ [newConfirmedBooking newId cid slot (slot_startTime slot)
                              (slot_startTime slot + duration) now]
         \<and> endTime (newConfirmedBooking newId cid slot (slot_startTime slot)
                              (slot_startTime slot + duration) now)
             \<le> startTime (newConfirmedBooking newId cid slot (slot_startTime slot)
                              (slot_startTime slot + duration) now)"
proof -
  have d: "newDate (slot_startTime slot + duration) = Some (slot_startTime slot + duration)"
    using date dur by (simp add: newDate_def)
  have "\<not> slot_startTime slot + duration > slot_endTime slot" using valid dur by simp
  then show ?thesis
    using cust slot free dur date d
    by (simp add: bookAlternativeSlot_def Let_def markSlotAsBooked_id_string insertBooking_def
          newConfirmedBooking_def)
qed

text \<open>
  Claim C9, for customer C, the free slot S and a duration of \<open>-5\<close> milliseconds. The
  range check passes and a confirmed booking from 10:00:00.000 to 09:59:59.995 is saved;
  the call itself does not succeed: the reservation that follows is called with the id
  string and the caller gets \<open>EmptyCriteria\<close>.
\<close>

theorem bookAlternativeSlot_negative_duration:
  "bookAlternativeSlot ''C'' ''S'' (- 5) 0 ''B'' db_one
     = (Inl EmptyCriteria,
        db_one\<lparr>bookings := [bookingB\<lparr>startTime := 36000000, endTime := 35999995\<rparr>]\<rparr>)"
  by code_simp


section \<open>Alternative slots\<close>








section \<open>The experience term of the score\<close>

text \<open>
  Claim C10. The account age is the whole number of 30-day months in the absolute
  difference between now and the creation time, so the experience term is a function of
  that absolute difference alone: a painter created \<open>t\<close> after now gets the same
  experience points, and the same total score, as one created \<open>t\<close> before now. The term
  is not monotone in the creation time: a month before now and a month after now both
  give half a point, now itself gives none.
\<close>

theorem experiencePoints_symmetric:
  "getAccountAgeInMonths now created = \<bar>now - created\<bar> div 2592000000
   \<and> experiencePoints now created = experiencePoints 0 \<bar>now - created\<bar>
   \<and> experiencePoints now (now + t) = experiencePoints now (now - t)
   \<and> calculatePainterScore now bs r (painter\<lparr>user_createdAt := now + t\<rparr>)
       = calculatePainterScore now bs r (painter\<lparr>user_createdAt := now - t\<rparr>)
   \<and> experiencePoints 0 (- 2592000000) = 1 / 2
   \<and> experiencePoints 0 0 = 0
   \<and> experiencePoints 0 2592000000 = 1 / 2"
proof (intro conjI)
  show "getAccountAgeInMonths now created = \<bar>now - created\<bar> div 2592000000"
    by (simp add: getAccountAgeInMonths_def)
  show "experiencePoints now created = experiencePoints 0 \<bar>now - created\<bar>"
    by (simp add: experiencePoints_def getAccountAgeInMonths_def)
  show sym: "experiencePoints now (now + t) = experiencePoints now (now - t)"
    by (simp add: experiencePoints_def getAccountAgeInMonths_def)
  show "calculatePainterScore now bs r (painter\<lparr>user_createdAt := now + t\<rparr>)
       = calculatePainterScore now bs r (painter\<lparr>user_createdAt := now - t\<rparr>)"
    using sym by (simp add: calculatePainterScore_def Let_def)
  show "experiencePoints 0 (- 2592000000) = 1 / 2"
    by (simp add: experiencePoints_def getAccountAgeInMonths_def)
  show "experiencePoints 0 0 = 0"
    by (simp add: experiencePoints_def getAccountAgeInMonths_def)
  show "experiencePoints 0 2592000000 = 1 / 2"
    by (simp add: experiencePoints_def getAccountAgeInMonths_def)
qed

end
